theory Spec2Isabelle
  imports Main "HOL-Library.AList"
begin

section \<open>clashConvertTool: the conversion pipeline of src/pkg/main.go\<close>

text \<open>
  A shallow embedding of main.go. Go strings are byte sequences: \<open>string\<close> (a list of
  8-bit characters). The build targets GOARCH=amd64 (Makefile), so Go's \<open>int\<close> has 64
  bits; no function of the file does arithmetic on an \<open>int\<close> it stores, so such values are
  kept as \<open>int\<close>, and \<open>Atoi\<close> below carries the range check of the 64-bit type.
\<close>

subsection \<open>Data model (main.go, lines 19-77)\<close>

text \<open>
  A value of Go's empty interface, as \<open>yaml.Unmarshal\<close> fills it and as the code stores
  it in \<open>WSOpts\<close>: the dynamic type is the constructor. \<open>AOther\<close> stands for a value of
  any dynamic type the code never asserts (float64, time.Time), kept by its text.
  A Go map is an association list read with \<open>map_of\<close>.
\<close>

datatype any =
    ANil
  | AString string
  | AInt int
  | ABool bool
  | AOther string
  | ASlice "any list"
  | AMap "(string \<times> any) list"
  | AStringMap "(string \<times> string) list"

record VmessNode =
  Add :: string
  Aid :: int
  Host :: string
  ID :: string
  Net :: string
  Path :: string
  Port :: string
  PS :: string
  TLS :: string
  Type :: string
  V :: string

text \<open>\<open>WSOpts\<close> is a Go map: \<open>None\<close> is the nil map of the zero value.\<close>

record ClashProxy =
  Name :: string
  Type :: string
  Server :: string
  Port :: int
  UUID :: string
  AlterID :: int
  Cipher :: string
  TLS :: bool
  Network :: string
  WSOpts :: "(string \<times> any) list option"
  SkipCert :: bool

record RulesProvider =
  Type :: string
  Behavior :: string
  URL :: string
  Path :: string
  Interval :: int

record ProxyGroup =
  Name :: string
  Type :: string
  Proxies :: "string list"

record ClashConfig =
  Port :: int
  SocksPort :: int
  AllowLan :: bool
  Mode :: string
  LogLevel :: string
  ExternalCtrl :: string
  Proxies :: "ClashProxy list"
  ProxyGroups :: "ProxyGroup list"
  RulesProviders :: "(string \<times> RulesProvider) list"
  Rules :: "string list"

text \<open>The function-local struct of createDefaultClashConfig (lines 265-275).\<close>

record TemplateConfig =
  Port :: int
  SocksPort :: int
  AllowLan :: bool
  Mode :: string
  LogLevel :: string
  ExternalCtrl :: string
  RuleProviders :: "(string \<times> RulesProvider) list"
  Rules :: "string list"
  ProxyGroups :: "(string \<times> any) list list"

subsection \<open>Errors and outcomes\<close>

text \<open>
  One constructor for each \<open>fmt.Errorf\<close> of main.go; the argument is the text the format
  inserts. \<open>Error\<close> is the message (Go's \<open>err.Error()\<close>).
\<close>

datatype error =
    FetchError string
  | ReadBodyError string
  | DecodeError string
  | EmptyResult
  | SerializeError string
  | InvalidPort string

fun Error :: "error \<Rightarrow> string" where
  "Error (FetchError e) = ''failed to fetch subscription URL: '' @ e"
| "Error (ReadBodyError e) = ''failed to read subscription response body: '' @ e"
| "Error (DecodeError e) = ''failed to decode base64 subscription content: '' @ e"
| "Error EmptyResult = ''no valid vmess nodes found in the subscription''"
| "Error (SerializeError e) = ''failed to marshal clash config to YAML: '' @ e"
| "Error (InvalidPort p) = ''invalid port: '' @ p"

text \<open>
  \<open>log.Fatalf\<close> prints its message and ends the process with \<open>os.Exit(1)\<close>: the
  function that calls it never returns. \<open>Fatal\<close> is that outcome, with the message.
\<close>

datatype 'a outcome = Return 'a | Fatal string

subsection \<open>The standard library and the outside world\<close>

text \<open>
  What the code reads from outside, and the library functions whose result it only
  passes on, are parameters: every theorem below holds whatever they return. A library
  error is \<open>Inl\<close> with its text.
  \<^item> \<open>http_Get\<close>: \<open>http.Get\<close> followed by \<open>io.ReadAll\<close> of the response body
    (\<open>Inr (Inl e)\<close> when reading the body fails);
  \<^item> \<open>os_ReadFile\<close>, \<open>base64_DecodeString\<close> (\<open>base64.StdEncoding\<close>),
    \<open>json_Unmarshal\<close> into a zero \<open>VmessNode\<close>, \<open>yaml_Unmarshal\<close> into a zero
    \<open>TemplateConfig\<close>, \<open>yaml_Marshal\<close>, \<open>strings_TrimSpace\<close>;
  \<^item> \<open>Global_Url\<close>: the field \<open>Global.Url\<close> of config.go.
\<close>

record world =
  Global_Url :: string
  http_Get :: "string \<Rightarrow> string + (string + string)"
  base64_DecodeString :: "string \<Rightarrow> string + string"
  json_Unmarshal :: "string \<Rightarrow> string + VmessNode"
  os_ReadFile :: "string \<Rightarrow> string + string"
  yaml_Unmarshal :: "string \<Rightarrow> string + TemplateConfig"
  yaml_Marshal :: "ClashConfig \<Rightarrow> string + string"
  strings_TrimSpace :: "string \<Rightarrow> string"

text \<open>\<open>strings.HasPrefix\<close>, \<open>strings.TrimPrefix\<close> and \<open>strings.Split\<close> on a one-byte separator.\<close>

definition HasPrefix :: "string \<Rightarrow> string \<Rightarrow> bool" where
  "HasPrefix s p = (length p \<le> length s \<and> take (length p) s = p)"

definition TrimPrefix :: "string \<Rightarrow> string \<Rightarrow> string" where
  "TrimPrefix s p = (if HasPrefix s p then drop (length p) s else s)"

fun Split :: "string \<Rightarrow> char \<Rightarrow> string list" where
  "Split [] sep = [[]]"
| "Split (c # cs) sep =
     (if c = sep then [] # Split cs sep
      else (case Split cs sep of [] \<Rightarrow> [[c]] | l # ls \<Rightarrow> (c # l) # ls))"

text \<open>
  \<open>strconv.Atoi\<close>: an optional sign, then one or more ASCII digits, base 10, no
  underscores; a value outside the 64-bit \<open>int\<close> is a range error. \<open>None\<close> is any error.
\<close>

definition digit_val :: "char \<Rightarrow> nat option" where
  "digit_val c =
     (let n = (of_char c :: nat) in if 48 \<le> n \<and> n \<le> 57 then Some (n - 48) else None)"

fun digits_val :: "nat \<Rightarrow> string \<Rightarrow> nat option" where
  "digits_val n [] = Some n"
| "digits_val n (c # cs) =
     (case digit_val c of None \<Rightarrow> None | Some d \<Rightarrow> digits_val (n * 10 + d) cs)"

definition Atoi :: "string \<Rightarrow> int option" where
  "Atoi s =
     (case s of
        [] \<Rightarrow> None
      | c # cs \<Rightarrow>
          (let neg = (c = CHR ''-'');
               ds = (if c = CHR ''-'' \<or> c = CHR ''+'' then cs else s)
           in if ds = [] then None
              else (case digits_val 0 ds of
                      None \<Rightarrow> None
                    | Some n \<Rightarrow>
                        (let v = (if neg then - int n else int n)
                         in if - (2 ^ 63) \<le> v \<and> v < 2 ^ 63 then Some v else None))))"

subsection \<open>convertVmessToClashProxy (lines 206-234)\<close>

definition convertVmessToClashProxy :: "VmessNode \<Rightarrow> error + ClashProxy" where
  "convertVmessToClashProxy node =
     (case Atoi (VmessNode.Port node) of
        None \<Rightarrow> Inl (InvalidPort (VmessNode.Port node))
      | Some port \<Rightarrow>
          (let proxy = \<lparr> ClashProxy.Name = PS node,
                 ClashProxy.Type = ''vmess'',
                 Server = Add node,
                 ClashProxy.Port = port,
                 UUID = ID node,
                 AlterID = Aid node,
                 Cipher = ''auto'',
                 ClashProxy.TLS = (VmessNode.TLS node = ''tls''),
                 Network = Net node,
                 WSOpts = None,
                 SkipCert = True \<rparr>
           in if Net node = ''ws''
              then Inr (proxy \<lparr> WSOpts :=
                     Some (AList.update ''headers'' (AStringMap (AList.update ''Host'' (Host node) []))
                            (AList.update ''path'' (AString (VmessNode.Path node)) [])) \<rparr>)
              else Inr proxy))"

subsection \<open>createDefaultClashConfig (lines 237-318)\<close>

text \<open>
  Indexing a map of interface values: a missing key gives the nil interface. The two
  type assertions of the loop, in their comma-ok form.
\<close>

definition index :: "(string \<times> any) list \<Rightarrow> string \<Rightarrow> any" where
  "index g k = (case map_of g k of None \<Rightarrow> ANil | Some v \<Rightarrow> v)"

fun assert_string :: "any \<Rightarrow> string \<times> bool" where
  "assert_string (AString s) = (s, True)"
| "assert_string _ = ([], False)"

fun assert_slice :: "any \<Rightarrow> any list \<times> bool" where
  "assert_slice (ASlice xs) = (xs, True)"
| "assert_slice _ = ([], False)"

text \<open>The inner loop over \<open>pList\<close> (lines 292-296).\<close>

fun append_strings :: "string list \<Rightarrow> any list \<Rightarrow> string list" where
  "append_strings groupProxies [] = groupProxies"
| "append_strings groupProxies (pItem # pList) =
     (case assert_string pItem of
        (s, True) \<Rightarrow> append_strings (groupProxies @ [s]) pList
      | (_, False) \<Rightarrow> append_strings groupProxies pList)"

text \<open>The body of the loop over \<open>tmpl.ProxyGroups\<close> (lines 284-303): the group appended.\<close>

definition group_of :: "string list \<Rightarrow> (string \<times> any) list \<Rightarrow> ProxyGroup" where
  "group_of proxyNames g =
     (let name = fst (assert_string (index g ''name''));
          typ = fst (assert_string (index g ''type''));
          groupProxies =
            (case assert_string (index g ''proxies'') of
               (p, ok) \<Rightarrow>
                 if ok \<and> p = ''${proxies}'' then [] @ proxyNames
                 else (case assert_slice (index g ''proxies'') of
                         (pList, True) \<Rightarrow> append_strings [] pList
                       | (_, False) \<Rightarrow> []))
      in \<lparr> ProxyGroup.Name = name, ProxyGroup.Type = typ, ProxyGroup.Proxies = groupProxies \<rparr>)"

fun groups_loop :: "string list \<Rightarrow> ProxyGroup list \<Rightarrow> (string \<times> any) list list \<Rightarrow> ProxyGroup list" where
  "groups_loop proxyNames proxyGroups [] = proxyGroups"
| "groups_loop proxyNames proxyGroups (g # gs) =
     groups_loop proxyNames (proxyGroups @ [group_of proxyNames g]) gs"

definition createDefaultClashConfig ::
  "world \<Rightarrow> ClashProxy list \<Rightarrow> string list \<Rightarrow> ClashConfig outcome" where
  "createDefaultClashConfig W proxies proxyNames =
     (case os_ReadFile W ''resources/out-template.yaml'' of
        Inl err \<Rightarrow>
          Return \<lparr> ClashConfig.Port = 7890,
                   ClashConfig.SocksPort = 7891,
                   ClashConfig.AllowLan = True,
                   ClashConfig.Mode = ''Rule'',
                   ClashConfig.LogLevel = ''info'',
                   ClashConfig.ExternalCtrl = ''127.0.0.1:9090'',
                   ClashConfig.Proxies = proxies,
                   ClashConfig.ProxyGroups =
                     [\<lparr> ProxyGroup.Name = ''PROXY'', ProxyGroup.Type = ''select'',
                        ProxyGroup.Proxies = [''DIRECT'', ''REJECT''] @ proxyNames \<rparr>],
                   RulesProviders = [],
                   ClashConfig.Rules = [''MATCH,DIRECT''] \<rparr>
      | Inr f \<Rightarrow>
          (case yaml_Unmarshal W f of
             Inl err \<Rightarrow> Fatal (''Error parsing template: '' @ err)
           | Inr tmpl \<Rightarrow>
               Return \<lparr> ClashConfig.Port = TemplateConfig.Port tmpl,
                        ClashConfig.SocksPort = TemplateConfig.SocksPort tmpl,
                        ClashConfig.AllowLan = TemplateConfig.AllowLan tmpl,
                        ClashConfig.Mode = TemplateConfig.Mode tmpl,
                        ClashConfig.LogLevel = TemplateConfig.LogLevel tmpl,
                        ClashConfig.ExternalCtrl = TemplateConfig.ExternalCtrl tmpl,
                        ClashConfig.Proxies = proxies,
                        ClashConfig.ProxyGroups =
                          groups_loop proxyNames [] (TemplateConfig.ProxyGroups tmpl),
                        RulesProviders = RuleProviders tmpl,
                        ClashConfig.Rules = TemplateConfig.Rules tmpl \<rparr>))"

subsection \<open>processConvert (lines 127-203)\<close>

text \<open>The padding loop (lines 160-162) and the block around it (lines 158-163).\<close>

function pad_loop :: "nat \<Rightarrow> nat \<Rightarrow> string \<Rightarrow> string" where
  "pad_loop i padding_needed vmessBase64 =
     (if i < padding_needed then pad_loop (i + 1) padding_needed (vmessBase64 @ ''='')
      else vmessBase64)"
  by pat_completeness auto
termination
  by (relation "measure (\<lambda>(i, padding_needed, vmessBase64). padding_needed - i)") auto

declare pad_loop.simps [simp del]

definition pad_base64 :: "string \<Rightarrow> string" where
  "pad_base64 vmessBase64 =
     (if length vmessBase64 mod 4 \<noteq> 0
      then pad_loop 0 (4 - length vmessBase64 mod 4) vmessBase64
      else vmessBase64)"

text \<open>
  Lines 165-184, from the padded payload on: every \<open>continue\<close> leaves the two slices
  as they are; a converted node is appended to both.
\<close>

definition decode_node ::
  "world \<Rightarrow> string \<Rightarrow> ClashProxy list \<times> string list \<Rightarrow> ClashProxy list \<times> string list" where
  "decode_node W vmessBase64 acc =
     (case acc of (clashProxies, proxyNames) \<Rightarrow>
        (case base64_DecodeString W vmessBase64 of
           Inl err \<Rightarrow> (clashProxies, proxyNames)
         | Inr vmessJSON \<Rightarrow>
             (case json_Unmarshal W vmessJSON of
                Inl err \<Rightarrow> (clashProxies, proxyNames)
              | Inr node \<Rightarrow>
                  (case convertVmessToClashProxy node of
                     Inl err \<Rightarrow> (clashProxies, proxyNames)
                   | Inr proxy \<Rightarrow>
                       (clashProxies @ [proxy], proxyNames @ [ClashProxy.Name proxy])))))"

text \<open>The body of the loop over \<open>nodeLinks\<close> (lines 155-185), and the loop.\<close>

definition loop_body ::
  "world \<Rightarrow> string \<Rightarrow> ClashProxy list \<times> string list \<Rightarrow> ClashProxy list \<times> string list" where
  "loop_body W link0 acc =
     (let link = strings_TrimSpace W link0
      in if HasPrefix link ''vmess://''
         then decode_node W (pad_base64 (TrimPrefix link ''vmess://'')) acc
         else acc)"

fun links_loop ::
  "world \<Rightarrow> string list \<Rightarrow> ClashProxy list \<times> string list \<Rightarrow> ClashProxy list \<times> string list" where
  "links_loop W [] acc = acc"
| "links_loop W (link # nodeLinks) acc = links_loop W nodeLinks (loop_body W link acc)"

text \<open>
  The result is Go's pair \<open>(data, err)\<close>: \<open>data\<close> is nil (the empty byte slice) whenever
  \<open>err\<close> is not nil.
\<close>

definition processConvert :: "world \<Rightarrow> (string \<times> error option) outcome" where
  "processConvert W =
     (case http_Get W (Global_Url W) of
        Inl err \<Rightarrow> Return ([], Some (FetchError err))
      | Inr (Inl err) \<Rightarrow> Return ([], Some (ReadBodyError err))
      | Inr (Inr body) \<Rightarrow>
          (case base64_DecodeString W body of
             Inl err \<Rightarrow> Return ([], Some (DecodeError err))
           | Inr decodedBody \<Rightarrow>
               (case links_loop W (Split decodedBody (CHR 0x0A)) ([], []) of
                  (clashProxies, proxyNames) \<Rightarrow>
                    if length clashProxies = 0 then Return ([], Some EmptyResult)
                    else (case createDefaultClashConfig W clashProxies proxyNames of
                            Fatal msg \<Rightarrow> Fatal msg
                          | Return clashConfig \<Rightarrow>
                              (case yaml_Marshal W clashConfig of
                                 Inl err \<Rightarrow> Return ([], Some (SerializeError err))
                               | Inr yamlData \<Rightarrow> Return (yamlData, None))))))"

subsection \<open>processConfig (lines 105-117)\<close>

text \<open>
  The handler's calls on the gin context, in order: \<open>c.JSON(code, gin.H{...})\<close>,
  \<open>c.Header(key, value)\<close> and \<open>c.Data(code, contentType, data)\<close>.
\<close>

datatype gin_call =
    JSON nat "(string \<times> string) list"
  | Header string string
  | Data nat string string

definition processConfig :: "world \<Rightarrow> gin_call list outcome" where
  "processConfig W =
     (case processConvert W of
        Fatal msg \<Rightarrow> Fatal msg
      | Return (data, err) \<Rightarrow>
          Return
            ((case err of
                Some e \<Rightarrow> [JSON 500 [(''error'', Error e)]]
              | None \<Rightarrow> [])
             @ [Header ''Content-Type'' ''application/x-yaml'',
                Header ''Content-Disposition''
                  (''attachment; filename='' @ [CHR 0x22] @ ''out.yaml'' @ [CHR 0x22]),
                Data 200 ''application/x-yaml'' data]))"

subsection \<open>The serialized keys of a proxy entry\<close>

text \<open>
  The keys \<open>yaml.Marshal\<close> writes for a \<open>ClashProxy\<close>, read from the struct tags
  (lines 36-46): a field tagged \<open>omitempty\<close> is left out when it is empty, which for a
  string is the empty string and for a map a nil map or one of length 0.
\<close>

definition yaml_keys :: "ClashProxy \<Rightarrow> string list" where
  "yaml_keys p =
     [''name'', ''type'', ''server'', ''port'', ''uuid'', ''alterId'', ''cipher'', ''tls'']
     @ (if Network p = [] then [] else [''network''])
     @ (case WSOpts p of None \<Rightarrow> [] | Some m \<Rightarrow> if m = [] then [] else [''ws-opts''])
     @ [''skip-cert-verify'']"

subsection \<open>Example inputs\<close>

text \<open>
  One instance of the parameters, for the examples that follow the theorems. The
  library functions are tables over the inputs the examples use: the entries for the
  three node payloads and their JSON texts are the real functions' results there, and
  \<open>trim_ascii\<close> is \<open>strings.TrimSpace\<close> on ASCII text; the texts of the fetched
  subscription, of the template file and of the serialized document are placeholders.
\<close>

definition json_a :: string where
  \<open>json_a = ''{"ps":"a","port":"443","net":"ws","path":"/p","host":"h1"}''\<close>

definition json_c :: string where
  \<open>json_c = ''{"ps":"c","port":"x"}''\<close>

definition json_b :: string where
  \<open>json_b = ''{"ps":"b","port":"0","net":"tcp"}''\<close>

definition node_a :: VmessNode where
  "node_a = \<lparr> Add = [], Aid = 0, Host = ''h1'', ID = [], Net = ''ws'',
              VmessNode.Path = ''/p'', VmessNode.Port = ''443'', PS = ''a'',
              VmessNode.TLS = [], VmessNode.Type = [], V = [] \<rparr>"

definition node_b :: VmessNode where
  "node_b = \<lparr> Add = [], Aid = 0, Host = [], ID = [], Net = ''tcp'',
              VmessNode.Path = [], VmessNode.Port = ''0'', PS = ''b'',
              VmessNode.TLS = [], VmessNode.Type = [], V = [] \<rparr>"

definition node_c :: VmessNode where
  "node_c = \<lparr> Add = [], Aid = 0, Host = [], ID = [], Net = [],
              VmessNode.Path = [], VmessNode.Port = ''x'', PS = ''c'',
              VmessNode.TLS = [], VmessNode.Type = [], V = [] \<rparr>"

definition payload_a :: string where
  "payload_a = ''eyJwcyI6ImEiLCJwb3J0IjoiNDQzIiwibmV0Ijoid3MiLCJwYXRoIjoiL3AiLCJob3N0IjoiaDEifQ''"

definition payload_b :: string where
  "payload_b = ''eyJwcyI6ImIiLCJwb3J0IjoiMCIsIm5ldCI6InRjcCJ9''"

definition payload_c :: string where
  "payload_c = ''eyJwcyI6ImMiLCJwb3J0IjoieCJ9''"

definition link_a :: string where
  "link_a = ''vmess://'' @ payload_a"

definition link_b :: string where
  "link_b = ''vmess://'' @ payload_b"

definition link_c :: string where
  "link_c = ''vmess://'' @ payload_c"

definition body_ac :: string where
  "body_ac = link_a @ [CHR 0x0A] @ ''ss://abc'' @ [CHR 0x0D, CHR 0x0A] @ link_c"

definition body_c :: string where
  "body_c = ''ss://abc'' @ [CHR 0x0A] @ link_c"

definition sub_ac :: string where
  "sub_ac = ''subscription-a-c''"

definition sub_c :: string where
  "sub_c = ''subscription-c''"

definition ascii_space :: "char \<Rightarrow> bool" where
  "ascii_space c = (c = CHR 0x09 \<or> c = CHR 0x0A \<or> c = CHR 0x0B \<or> c = CHR 0x0C
                    \<or> c = CHR 0x0D \<or> c = CHR '' '')"

definition trim_ascii :: "string \<Rightarrow> string" where
  "trim_ascii s = rev (dropWhile ascii_space (rev (dropWhile ascii_space s)))"

definition table :: "(string \<times> 'a) list \<Rightarrow> string \<Rightarrow> string \<Rightarrow> string + 'a" where
  "table t err s = (case map_of t s of None \<Rightarrow> Inl err | Some r \<Rightarrow> Inr r)"

definition proxy_a :: ClashProxy where
  "proxy_a = \<lparr> ClashProxy.Name = ''a'', ClashProxy.Type = ''vmess'', Server = [],
               ClashProxy.Port = 443, UUID = [], AlterID = 0, Cipher = ''auto'',
               ClashProxy.TLS = False, Network = ''ws'',
               WSOpts = Some [(''path'', AString ''/p''),
                              (''headers'', AStringMap [(''Host'', ''h1'')])],
               SkipCert = True \<rparr>"

definition proxy_b :: ClashProxy where
  "proxy_b = \<lparr> ClashProxy.Name = ''b'', ClashProxy.Type = ''vmess'', Server = [],
               ClashProxy.Port = 0, UUID = [], AlterID = 0, Cipher = ''auto'',
               ClashProxy.TLS = False, Network = ''tcp'', WSOpts = None,
               SkipCert = True \<rparr>"

definition group_auto :: "(string \<times> any) list" where
  "group_auto = [(''name'', AString ''Auto''), (''type'', AString ''url-test''),
                 (''proxies'', AString ''${proxies}'')]"

definition group_static :: "(string \<times> any) list" where
  "group_static = [(''name'', AString ''Static''), (''type'', AString ''select''),
                   (''proxies'', ASlice (map AString [''DIRECT'', ''${proxies}'']))]"

definition group_untyped :: "(string \<times> any) list" where
  "group_untyped = [(''name'', AInt 7),
                    (''proxies'', ASlice [AString ''DIRECT'', AInt 1, AString ''REJECT''])]"

definition group_odd :: "(string \<times> any) list" where
  "group_odd = [(''name'', AString ''Odd''), (''type'', ABool True),
                (''proxies'', AString ''DIRECT'')]"

definition example_template :: TemplateConfig where
  "example_template =
     \<lparr> TemplateConfig.Port = 7890, TemplateConfig.SocksPort = 7891,
       TemplateConfig.AllowLan = False, TemplateConfig.Mode = ''rule'',
       TemplateConfig.LogLevel = ''warning'', TemplateConfig.ExternalCtrl = '':9090'',
       RuleProviders = [], TemplateConfig.Rules = [''MATCH,Auto''],
       TemplateConfig.ProxyGroups = [group_auto, group_static, group_untyped, group_odd] \<rparr>"

definition example_world :: world where
  "example_world =
     \<lparr> Global_Url = ''http://sub.example/list'',
       http_Get = (\<lambda>url. if url = ''http://sub.example/list'' then Inr (Inr sub_ac)
                         else Inl ''no such host''),
       base64_DecodeString =
         table [(sub_ac, body_ac), (sub_c, body_c), (payload_a @ ''=='', json_a),
                (payload_b, json_b), (payload_c, json_c)]
           ''illegal base64 data'',
       json_Unmarshal =
         table [(json_a, node_a), (json_b, node_b), (json_c, node_c)] ''unexpected end of JSON input'',
       os_ReadFile = (\<lambda>path. Inl ''no such file or directory''),
       yaml_Unmarshal =
         table [(''template'', example_template)] ''yaml: did not find expected node content'',
       yaml_Marshal = (\<lambda>cfg. Inr ''document''),
       strings_TrimSpace = trim_ascii \<rparr>"

text \<open>
  Four variations: the fetch fails (config.go's default address \<open>unknow\<close> is no URL),
  the template file holds text that is not YAML, the subscription has no usable line, and
  the template file parses.
\<close>

definition unreachable_world :: world where
  "unreachable_world =
     example_world \<lparr> Global_Url := ''unknow'',
                     http_Get := (\<lambda>url. Inl ''unsupported protocol scheme'') \<rparr>"

definition malformed_world :: world where
  "malformed_world = example_world \<lparr> os_ReadFile := (\<lambda>path. Inr ''port: ['') \<rparr>"


definition template_world :: world where
  "template_world = example_world \<lparr> os_ReadFile := (\<lambda>path. Inr ''template'') \<rparr>"

section \<open>Properties\<close>

subsection \<open>The loops in closed form\<close>

lemma pad_loop_eq: "pad_loop i n s = s @ replicate (n - i) (CHR ''='')"
proof (induction i n s rule: pad_loop.induct)
  case (1 i n s)
  show ?case
  proof (cases "i < n")
    case True
    then have "n - i = Suc (n - (i + 1))" by simp
    with True 1 show ?thesis
      by (subst pad_loop.simps) (simp add: replicate_append_same)
  next
    case False
    then show ?thesis by (subst pad_loop.simps) simp
  qed
qed

lemma pad_base64_eq:
  "pad_base64 s = s @ replicate ((4 - length s mod 4) mod 4) (CHR ''='')"
  by (simp add: pad_base64_def pad_loop_eq)

lemma decode_node_acc:
  "decode_node W b (ps, ns) =
     (ps @ fst (decode_node W b ([], [])), ns @ snd (decode_node W b ([], [])))"
  by (simp add: decode_node_def split: sum.splits)

lemma loop_body_acc:
  "loop_body W l (ps, ns) =
     (ps @ fst (loop_body W l ([], [])), ns @ snd (loop_body W l ([], [])))"
  using decode_node_acc [of W _ ps ns] by (simp add: loop_body_def Let_def)

lemma links_loop_acc:
  "links_loop W ls (ps, ns) =
     (ps @ fst (links_loop W ls ([], [])), ns @ snd (links_loop W ls ([], [])))"
proof (induction ls arbitrary: ps ns)
  case Nil
  show ?case by simp
next
  case (Cons l ls)
  obtain qs ms where b: "loop_body W l ([], []) = (qs, ms)" by (cases "loop_body W l ([], [])")
  have b': "loop_body W l (ps, ns) = (ps @ qs, ns @ ms)"
    using loop_body_acc [of W l ps ns] by (simp add: b)
  show ?case
    using Cons.IH [of "ps @ qs" "ns @ ms"] Cons.IH [of qs ms] by (simp add: b b')
qed

lemma links_loop_append:
  "links_loop W (ls1 @ ls2) acc = links_loop W ls2 (links_loop W ls1 acc)"
  by (induction ls1 arbitrary: acc) simp_all

lemma loop_body_names:
  "snd (loop_body W l ([], [])) = map ClashProxy.Name (fst (loop_body W l ([], [])))"
  by (simp add: loop_body_def decode_node_def Let_def split: sum.splits)

lemma links_loop_names:
  "snd (links_loop W ls ([], [])) = map ClashProxy.Name (fst (links_loop W ls ([], [])))"
proof (induction ls rule: rev_induct)
  case Nil
  show ?case by simp
next
  case (snoc l ls)
  obtain ps ns where a: "links_loop W ls ([], []) = (ps, ns)" by (cases "links_loop W ls ([], [])")
  show ?case
    using snoc loop_body_names [of W l] loop_body_acc [of W l ps ns]
    by (simp add: links_loop_append a)
qed

lemma append_strings_eq:
  "append_strings acc xs = acc @ [s. AString s \<leftarrow> xs]"
proof (induction xs arbitrary: acc)
  case Nil
  show ?case by simp
next
  case (Cons x xs)
  show ?case by (cases x) (simp_all add: Cons)
qed

lemma groups_loop_eq:
  "groups_loop names acc gs = acc @ map (group_of names) gs"
  by (induction gs arbitrary: acc) simp_all

lemma processConvert_links:
  assumes "http_Get W (Global_Url W) = Inr (Inr body)"
    and "base64_DecodeString W body = Inr decodedBody"
    and "links_loop W (Split decodedBody (CHR 0x0A)) ([], []) = (ps, ns)"
  shows "processConvert W =
           (if ps = [] then Return ([], Some EmptyResult)
            else (case createDefaultClashConfig W ps ns of
                    Fatal msg \<Rightarrow> Fatal msg
                  | Return clashConfig \<Rightarrow>
                      (case yaml_Marshal W clashConfig of
                         Inl e \<Rightarrow> Return ([], Some (SerializeError e))
                       | Inr yamlData \<Rightarrow> Return (yamlData, None))))"
  by (simp add: processConvert_def assms)


lemma createDefault_parsed:
  assumes "os_ReadFile W ''resources/out-template.yaml'' = Inr f"
    and "yaml_Unmarshal W f = Inr tmpl"
  shows "\<exists>cfg. createDefaultClashConfig W proxies proxyNames = Return cfg
           \<and> ClashConfig.Proxies cfg = proxies
           \<and> ClashConfig.ProxyGroups cfg = map (group_of proxyNames) (TemplateConfig.ProxyGroups tmpl)"
  by (simp add: createDefaultClashConfig_def assms groups_loop_eq)


lemma links_loop_fst_append:
  "fst (links_loop W (ls1 @ ls2) ([], [])) =
     fst (links_loop W ls1 ([], [])) @ fst (links_loop W ls2 ([], []))"
proof -
  obtain ps ns where a: "links_loop W ls1 ([], []) = (ps, ns)" by (cases "links_loop W ls1 ([], [])")
  show ?thesis
    using links_loop_acc [of W ls2 ps ns] by (simp add: links_loop_append a)
qed

lemma decode_node_world:
  assumes "base64_DecodeString W = base64_DecodeString W'" "json_Unmarshal W = json_Unmarshal W'"
  shows "decode_node W b acc = decode_node W' b acc"
  by (simp add: decode_node_def assms split: prod.splits sum.splits)

lemma loop_body_world:
  assumes "base64_DecodeString W = base64_DecodeString W'" "json_Unmarshal W = json_Unmarshal W'"
    "strings_TrimSpace W = strings_TrimSpace W'"
  shows "loop_body W l acc = loop_body W' l acc"
  by (simp add: loop_body_def Let_def decode_node_world [OF assms(1,2)] assms(3))

lemma links_loop_world:
  assumes "base64_DecodeString W = base64_DecodeString W'" "json_Unmarshal W = json_Unmarshal W'"
    "strings_TrimSpace W = strings_TrimSpace W'"
  shows "links_loop W ls acc = links_loop W' ls acc"
  by (induction ls arbitrary: acc) (simp_all add: loop_body_world [OF assms])

lemma group_of_placeholder:
  "index g ''proxies'' = AString ''${proxies}'' \<Longrightarrow> ProxyGroup.Proxies (group_of names g) = names"
  by (simp add: group_of_def)

lemma group_of_slice:
  "index g ''proxies'' = ASlice xs \<Longrightarrow> ProxyGroup.Proxies (group_of names g) = [s. AString s \<leftarrow> xs]"
  by (simp add: group_of_def append_strings_eq)

lemma strings_of_strings: "[s. AString s \<leftarrow> map AString names] = names"
  by (induction names) simp_all

lemma group_of_no_list:
  assumes "index g ''proxies'' \<noteq> AString ''${proxies}''" "\<nexists>xs. index g ''proxies'' = ASlice xs"
  shows "ProxyGroup.Proxies (group_of names g) = []"
  using assms by (cases "index g ''proxies''") (simp_all add: group_of_def)

lemma group_of_name:
  "\<nexists>s. index g ''name'' = AString s \<Longrightarrow> ProxyGroup.Name (group_of names g) = []"
  by (cases "index g ''name''") (simp_all add: group_of_def Let_def)

lemma group_of_type:
  "\<nexists>s. index g ''type'' = AString s \<Longrightarrow> ProxyGroup.Type (group_of names g) = []"
  by (cases "index g ''type''") (simp_all add: group_of_def Let_def)

subsection \<open>The example inputs, evaluated\<close>

lemma Atoi_x: "Atoi ''x'' = None" by (simp add: Atoi_def digit_val_def)
lemma Atoi_0: "Atoi ''0'' = Some 0" by (simp add: Atoi_def digit_val_def)
lemma Atoi_443: "Atoi ''443'' = Some 443" by (simp add: Atoi_def digit_val_def)

lemma decode_b: "base64_DecodeString example_world payload_b = Inr json_b"
  by (simp add: example_world_def table_def payload_a_def payload_b_def sub_ac_def sub_c_def)
lemma decode_c: "base64_DecodeString example_world payload_c = Inr json_c"
  by (simp add: example_world_def table_def payload_a_def payload_b_def payload_c_def sub_ac_def sub_c_def)
lemma decode_a: "base64_DecodeString example_world (payload_a @ ''=='') = Inr json_a"
  by (simp add: example_world_def table_def payload_a_def payload_b_def payload_c_def sub_ac_def sub_c_def)
lemma unmarshal_a: "json_Unmarshal example_world json_a = Inr node_a"
  by (simp add: example_world_def table_def)
lemma unmarshal_b: "json_Unmarshal example_world json_b = Inr node_b"
  by (simp add: example_world_def table_def json_a_def json_b_def)
lemma unmarshal_c: "json_Unmarshal example_world json_c = Inr node_c"
  by (simp add: example_world_def table_def json_a_def json_b_def json_c_def)

lemma convert_a: "convertVmessToClashProxy node_a = Inr proxy_a"
  by (simp add: convertVmessToClashProxy_def node_a_def Atoi_443 proxy_a_def)

lemma convert_b: "convertVmessToClashProxy node_b = Inr proxy_b"
  by (simp add: convertVmessToClashProxy_def node_b_def Atoi_0 proxy_b_def)

lemma trim_ascii_core:
  assumes "s \<noteq> []" "\<not> ascii_space (hd s)" "\<not> ascii_space (last s)"
    and "\<forall>c\<in>set l. ascii_space c" "\<forall>c\<in>set r. ascii_space c"
  shows "trim_ascii (l @ s @ r) = s"
proof -
  have 1: "dropWhile ascii_space (l @ s @ r) = s @ r"
    using assms by (cases s) (simp_all add: dropWhile_append)
  have 2: "dropWhile ascii_space (rev r @ rev s) = rev s"
    using assms by (cases s rule: rev_cases) (simp_all add: dropWhile_append)
  show ?thesis by (simp add: trim_ascii_def 1 2)
qed

lemma trim_ascii_id:
  "s \<noteq> [] \<Longrightarrow> \<not> ascii_space (hd s) \<Longrightarrow> \<not> ascii_space (last s) \<Longrightarrow> trim_ascii s = s"
  using trim_ascii_core [of s "[]" "[]"] by simp

lemma link_a_ends: "link_a \<noteq> [] \<and> \<not> ascii_space (hd link_a) \<and> \<not> ascii_space (last link_a)"
  by (simp add: link_a_def payload_a_def ascii_space_def)

lemma link_b_ends: "link_b \<noteq> [] \<and> \<not> ascii_space (hd link_b) \<and> \<not> ascii_space (last link_b)"
  by (simp add: link_b_def payload_b_def ascii_space_def)

lemma link_c_ends: "link_c \<noteq> [] \<and> \<not> ascii_space (hd link_c) \<and> \<not> ascii_space (last link_c)"
  by (simp add: link_c_def payload_c_def ascii_space_def)

lemma trim_a: "strings_TrimSpace example_world link_a = link_a"
  using link_a_ends by (simp add: example_world_def trim_ascii_id)

lemma trim_b: "strings_TrimSpace example_world link_b = link_b"
  using link_b_ends by (simp add: example_world_def trim_ascii_id)

lemma trim_c: "strings_TrimSpace example_world link_c = link_c"
  using link_c_ends by (simp add: example_world_def trim_ascii_id)

lemma trim_a_spaced: "strings_TrimSpace example_world ('' '' @ link_a @ [CHR 0x0D]) = link_a"
  using link_a_ends trim_ascii_core [of link_a "'' ''" "[CHR 0x0D]"]
  by (simp add: example_world_def ascii_space_def)

lemma prefix_a: "HasPrefix link_a ''vmess://''"
  by (simp add: HasPrefix_def link_a_def)

lemma prefix_b: "HasPrefix link_b ''vmess://''"
  by (simp add: HasPrefix_def link_b_def)

lemma prefix_c: "HasPrefix link_c ''vmess://''"
  by (simp add: HasPrefix_def link_c_def)

lemma trim_prefix_a: "TrimPrefix link_a ''vmess://'' = payload_a"
  by (simp add: TrimPrefix_def HasPrefix_def link_a_def)

lemma trim_prefix_b: "TrimPrefix link_b ''vmess://'' = payload_b"
  by (simp add: TrimPrefix_def HasPrefix_def link_b_def)

lemma trim_prefix_c: "TrimPrefix link_c ''vmess://'' = payload_c"
  by (simp add: TrimPrefix_def HasPrefix_def link_c_def)

lemma length_payload_a: "length payload_a = 78"
  by (simp add: payload_a_def)

lemma length_payload_b: "length payload_b = 44"
  by (simp add: payload_b_def)

lemma length_payload_c: "length payload_c = 28"
  by (simp add: payload_c_def)

lemma pad_a: "pad_base64 payload_a = payload_a @ ''==''"
  by (simp add: pad_base64_eq length_payload_a numeral_2_eq_2)

lemma pad_b: "pad_base64 payload_b = payload_b"
  by (simp add: pad_base64_eq length_payload_b)

lemma pad_c: "pad_base64 payload_c = payload_c"
  by (simp add: pad_base64_eq length_payload_c)

lemma loop_body_a: "loop_body example_world link_a ([], []) = ([proxy_a], [''a''])"
  by (simp add: loop_body_def trim_a prefix_a trim_prefix_a pad_a decode_node_def decode_a
      unmarshal_a convert_a proxy_a_def)

lemma loop_body_b: "loop_body example_world link_b ([], []) = ([proxy_b], [''b''])"
  by (simp add: loop_body_def trim_b prefix_b trim_prefix_b pad_b decode_node_def decode_b
      unmarshal_b convert_b proxy_b_def)

lemma loop_body_c: "loop_body example_world link_c ([], []) = ([], [])"
  by (simp add: loop_body_def trim_c prefix_c trim_prefix_c pad_c decode_node_def decode_c
      unmarshal_c convertVmessToClashProxy_def node_c_def Atoi_x)

lemma fetch_unreachable:
  "http_Get unreachable_world (Global_Url unreachable_world) = Inl ''unsupported protocol scheme''"
  by (simp add: unreachable_world_def)

lemma convert_unreachable:
  "processConvert unreachable_world = Return ([], Some (FetchError ''unsupported protocol scheme''))"
  by (simp add: processConvert_def fetch_unreachable)

lemma Split_body_ac: "Split body_ac (CHR 0x0A) = [link_a, ''ss://abc'' @ [CHR 0x0D], link_c]"
  by (simp add: body_ac_def link_a_def link_c_def payload_a_def payload_c_def)


lemma loop_body_ss: "loop_body example_world (''ss://abc'' @ [CHR 0x0D]) acc = acc"
  by (simp add: loop_body_def example_world_def trim_ascii_def ascii_space_def HasPrefix_def)


lemma links_loop_ac:
  "links_loop example_world (Split body_ac (CHR 0x0A)) ([], []) = ([proxy_a], [''a''])"
proof -
  have "loop_body example_world link_c ([proxy_a], [''a'']) = ([proxy_a], [''a''])"
    using loop_body_acc [of example_world link_c "[proxy_a]" "[''a'']"] by (simp add: loop_body_c)
  then show ?thesis
    by (simp only: Split_body_ac links_loop.simps loop_body_a loop_body_ss)
qed


lemma read_malformed: "os_ReadFile malformed_world ''resources/out-template.yaml'' = Inr ''port: [''"
  by (simp add: malformed_world_def)

lemma world_fields_malformed:
  "http_Get malformed_world = http_Get example_world"
  "Global_Url malformed_world = Global_Url example_world"
  "base64_DecodeString malformed_world = base64_DecodeString example_world"
  "json_Unmarshal malformed_world = json_Unmarshal example_world"
  "yaml_Unmarshal malformed_world = yaml_Unmarshal example_world"
  "yaml_Marshal malformed_world = yaml_Marshal example_world"
  "strings_TrimSpace malformed_world = strings_TrimSpace example_world"
  by (simp_all add: malformed_world_def)

lemma world_fields_template:
  "http_Get template_world = http_Get example_world"
  "Global_Url template_world = Global_Url example_world"
  "base64_DecodeString template_world = base64_DecodeString example_world"
  "json_Unmarshal template_world = json_Unmarshal example_world"
  "yaml_Unmarshal template_world = yaml_Unmarshal example_world"
  "yaml_Marshal template_world = yaml_Marshal example_world"
  "strings_TrimSpace template_world = strings_TrimSpace example_world"
  by (simp_all add: template_world_def)

lemma fetch_example: "http_Get example_world (Global_Url example_world) = Inr (Inr sub_ac)"
  by (simp add: example_world_def)

lemma decode_sub_ac: "base64_DecodeString example_world sub_ac = Inr body_ac"
  by (simp add: example_world_def table_def)

lemma unmarshal_malformed:
  "yaml_Unmarshal example_world ''port: ['' = Inl ''yaml: did not find expected node content''"
  by (simp add: example_world_def table_def)

lemma links_loop_malformed:
  "links_loop malformed_world (Split body_ac (CHR 0x0A)) ([], []) = ([proxy_a], [''a''])"
  by (simp add: links_loop_world [of malformed_world example_world] world_fields_malformed links_loop_ac)







lemma read_template: "os_ReadFile template_world ''resources/out-template.yaml'' = Inr ''template''"
  by (simp add: template_world_def)

lemma unmarshal_template: "yaml_Unmarshal template_world ''template'' = Inr example_template"
  by (simp add: world_fields_template example_world_def table_def)

lemma example_groups:
  "length (TemplateConfig.ProxyGroups example_template) = 4"
  "TemplateConfig.ProxyGroups example_template ! 0 = group_auto"
  "TemplateConfig.ProxyGroups example_template ! 1 = group_static"
  "TemplateConfig.ProxyGroups example_template ! 2 = group_untyped"
  "TemplateConfig.ProxyGroups example_template ! 3 = group_odd"
  by (simp_all add: example_template_def)

lemma index_group_auto: "index group_auto ''proxies'' = AString ''${proxies}''"
  by (simp add: index_def group_auto_def)

lemma index_group_static:
  "index group_static ''proxies'' = ASlice (map AString [''DIRECT'', ''${proxies}''])"
  by (simp add: index_def group_static_def)

lemma index_group_untyped:
  "index group_untyped ''name'' = AInt 7"
  "index group_untyped ''type'' = ANil"
  "index group_untyped ''proxies'' = ASlice [AString ''DIRECT'', AInt 1, AString ''REJECT'']"
  by (simp_all add: index_def group_untyped_def)

lemma index_group_odd:
  "index group_odd ''type'' = ABool True"
  "index group_odd ''proxies'' = AString ''DIRECT''"
  by (simp_all add: index_def group_odd_def)

lemma links_loop_acb:
  "links_loop example_world [link_a, link_c, link_b] ([], []) = ([proxy_a, proxy_b], [''a'', ''b''])"
proof -
  have c: "loop_body example_world link_c ([proxy_a], [''a'']) = ([proxy_a], [''a''])"
    using loop_body_acc [of example_world link_c "[proxy_a]" "[''a'']"] by (simp add: loop_body_c)
  have b: "loop_body example_world link_b ([proxy_a], [''a'']) = ([proxy_a, proxy_b], [''a'', ''b''])"
    using loop_body_acc [of example_world link_b "[proxy_a]" "[''a'']"] by (simp add: loop_body_b)
  show ?thesis by (simp only: links_loop.simps loop_body_a c b)
qed

subsection \<open>The specified behaviour, C1 to C10\<close>

text \<open>
  C1, as the code has it. The mapper rejects a node with \<open>InvalidPort\<close> exactly when
  \<open>strconv.Atoi\<close> fails on its port field, and the loop then leaves both slices as
  they are; when the field parses as an integer, whatever its sign, the node is mapped to
  an entry carrying that integer, and the loop appends the entry and its name.
\<close>

theorem convert_port_Atoi:
  "(Atoi (VmessNode.Port node) = None \<longrightarrow>
      convertVmessToClashProxy node = Inl (InvalidPort (VmessNode.Port node))
      \<and> (\<forall>W b j acc. base64_DecodeString W b = Inr j \<longrightarrow> json_Unmarshal W j = Inr node
            \<longrightarrow> decode_node W b acc = acc))
   \<and> (\<forall>port. Atoi (VmessNode.Port node) = Some port \<longrightarrow>
        (\<exists>proxy. convertVmessToClashProxy node = Inr proxy \<and> ClashProxy.Port proxy = port
           \<and> (\<forall>W b j ps ns. base64_DecodeString W b = Inr j \<longrightarrow> json_Unmarshal W j = Inr node
            \<longrightarrow> decode_node W b (ps, ns) = (ps @ [proxy], ns @ [PS node]))))"
  by (auto simp add: convertVmessToClashProxy_def decode_node_def Let_def)

text \<open>The two cases at the examples: port "x" is rejected and skipped, port "0" is kept.\<close>

theorem convert_port_Atoi_example:
  "Atoi (VmessNode.Port node_c) = None
   \<and> convertVmessToClashProxy node_c = Inl (InvalidPort ''x'')
   \<and> decode_node example_world payload_c ([proxy_a], [''a'']) = ([proxy_a], [''a''])
   \<and> Atoi (VmessNode.Port node_b) = Some 0
   \<and> convertVmessToClashProxy node_b = Inr proxy_b
   \<and> decode_node example_world payload_b ([proxy_a], [''a'']) = ([proxy_a, proxy_b], [''a'', ''b''])"
proof -
  have c: "Atoi (VmessNode.Port node_c) = None" by (simp add: node_c_def Atoi_x)
  have b: "Atoi (VmessNode.Port node_b) = Some 0" by (simp add: node_b_def Atoi_0)
  from convert_port_Atoi [of node_c] c decode_c unmarshal_c
  have 1: "convertVmessToClashProxy node_c = Inl (InvalidPort ''x'')"
    and 2: "decode_node example_world payload_c ([proxy_a], [''a'']) = ([proxy_a], [''a''])"
    by (simp_all add: node_c_def)
  from convert_port_Atoi [of node_b] b obtain proxy where
    p: "convertVmessToClashProxy node_b = Inr proxy" "ClashProxy.Port proxy = 0"
    and d: "\<forall>W b j ps ns. base64_DecodeString W b = Inr j \<longrightarrow> json_Unmarshal W j = Inr node_b
            \<longrightarrow> decode_node W b (ps, ns) = (ps @ [proxy], ns @ [PS node_b])"
    by blast
  have pb: "proxy = proxy_b"
    using p(1) by (simp add: convertVmessToClashProxy_def node_b_def Atoi_0 proxy_b_def)
  from d decode_b unmarshal_b
  have 3: "decode_node example_world payload_b ([proxy_a], [''a'']) = ([proxy_a] @ [proxy], [''a''] @ [PS node_b])"
    by blast
  show ?thesis using c b 1 2 3 p pb by (simp add: node_b_def)
qed

text \<open>
  C1 as stated fails: the port field "0" does not parse to a positive integer, and the
  node is neither rejected by the mapper nor skipped by the loop.
\<close>

theorem zero_port_not_rejected:
  "Atoi (VmessNode.Port node_b) = Some 0
   \<and> convertVmessToClashProxy node_b = Inr proxy_b
   \<and> ClashProxy.Port proxy_b = 0
   \<and> decode_node example_world payload_b ([], []) = ([proxy_b], [''b''])"
  by (simp add: node_b_def Atoi_0 convertVmessToClashProxy_def proxy_b_def decode_node_def decode_b unmarshal_b)

text \<open>
  C2, at a failing request. The subscription address is config.go's default, the fetch
  fails and processConvert returns the error; the handler answers with the 500 JSON
  error and then goes on: it sets both headers and calls \<open>c.Data\<close> with status 200, the
  YAML content type and the nil data. The \<open>if\<close> of lines 107-109 has no \<open>return\<close>.
\<close>

theorem error_response_then_data:
  "processConvert unreachable_world = Return ([], Some (FetchError ''unsupported protocol scheme''))
   \<and> processConfig unreachable_world =
       Return [JSON 500 [(''error'', ''failed to fetch subscription URL: unsupported protocol scheme'')],
               Header ''Content-Type'' ''application/x-yaml'',
               Header ''Content-Disposition''
                 (''attachment; filename='' @ [CHR 0x22] @ ''out.yaml'' @ [CHR 0x22]),
               Data 200 ''application/x-yaml'' []]"
  by (simp add: processConfig_def convert_unreachable)

text \<open>
  C3, as the code has it. When the template file is read and \<open>yaml.Unmarshal\<close> fails on
  it, the merger does not fall back to the built-in document and returns nothing: it
  logs "Error parsing template: " with the parser's error and ends the process
  (\<open>log.Fatalf\<close>). So whenever the conversion reaches the merger (some node survived),
  processConvert returns no error to its caller and the handler writes no response.
\<close>

theorem malformed_template_ends_process:
  assumes "os_ReadFile W ''resources/out-template.yaml'' = Inr f"
    and "yaml_Unmarshal W f = Inl err"
  shows "createDefaultClashConfig W proxies proxyNames = Fatal (''Error parsing template: '' @ err)
       \<and> (\<forall>body decodedBody.
            http_Get W (Global_Url W) = Inr (Inr body) \<longrightarrow>
            base64_DecodeString W body = Inr decodedBody \<longrightarrow>
            fst (links_loop W (Split decodedBody (CHR 0x0A)) ([], [])) \<noteq> [] \<longrightarrow>
              processConvert W = Fatal (''Error parsing template: '' @ err)
              \<and> processConfig W = Fatal (''Error parsing template: '' @ err))"
proof -
  have c: "createDefaultClashConfig W ps ns = Fatal (''Error parsing template: '' @ err)" for ps ns
    using assms by (simp add: createDefaultClashConfig_def)
  have "processConvert W = Fatal (''Error parsing template: '' @ err)"
    if g: "http_Get W (Global_Url W) = Inr (Inr body)"
      and d: "base64_DecodeString W body = Inr decodedBody"
      and n: "fst (links_loop W (Split decodedBody (CHR 0x0A)) ([], [])) \<noteq> []"
    for body decodedBody
  proof -
    obtain ps ns where l: "links_loop W (Split decodedBody (CHR 0x0A)) ([], []) = (ps, ns)"
      by (cases "links_loop W (Split decodedBody (CHR 0x0A)) ([], [])")
    with n have "ps \<noteq> []" by simp
    then show ?thesis by (simp add: processConvert_links [OF g d l] c)
  qed
  then show ?thesis
    by (simp add: c processConfig_def)
qed

text \<open>
  At the example with a template file that is not YAML.
\<close>

theorem malformed_template_ends_process_example:
  "createDefaultClashConfig malformed_world [proxy_a] [''a'']
     = Fatal ''Error parsing template: yaml: did not find expected node content''
   \<and> fst (links_loop malformed_world (Split body_ac (CHR 0x0A)) ([], [])) = [proxy_a]
   \<and> processConvert malformed_world
     = Fatal ''Error parsing template: yaml: did not find expected node content''
   \<and> processConfig malformed_world
     = Fatal ''Error parsing template: yaml: did not find expected node content''"
proof -
  have u: "yaml_Unmarshal malformed_world ''port: ['' = Inl ''yaml: did not find expected node content''"
    by (simp add: world_fields_malformed unmarshal_malformed)
  have g: "http_Get malformed_world (Global_Url malformed_world) = Inr (Inr sub_ac)"
    by (simp add: world_fields_malformed fetch_example)
  have d: "base64_DecodeString malformed_world sub_ac = Inr body_ac"
    by (simp add: world_fields_malformed decode_sub_ac)
  have n: "fst (links_loop malformed_world (Split body_ac (CHR 0x0A)) ([], [])) \<noteq> []"
    by (simp add: links_loop_malformed)
  note M = malformed_template_ends_process [OF read_malformed u, of "[proxy_a]" "[''a'']"]
  have 1: "createDefaultClashConfig malformed_world [proxy_a] [''a'']
     = Fatal ''Error parsing template: yaml: did not find expected node content''"
    using M by simp
  have 2: "processConvert malformed_world
        = Fatal (''Error parsing template: '' @ ''yaml: did not find expected node content'')
      \<and> processConfig malformed_world
        = Fatal (''Error parsing template: '' @ ''yaml: did not find expected node content'')"
    using M g d n by blast
  show ?thesis using 1 2 by (simp add: links_loop_malformed)
qed

text \<open>
  C3 as stated fails: with the malformed template the conversion returns no error value
  that the handler could turn into a 500 response; both end in the fatal exit.
\<close>

theorem malformed_template_no_error_response:
  "os_ReadFile malformed_world ''resources/out-template.yaml'' = Inr ''port: [''
   \<and> yaml_Unmarshal malformed_world ''port: ['' = Inl ''yaml: did not find expected node content''
   \<and> processConvert malformed_world
     = Fatal ''Error parsing template: yaml: did not find expected node content''
   \<and> processConfig malformed_world
     = Fatal ''Error parsing template: yaml: did not find expected node content''"
proof -
  have u: "yaml_Unmarshal malformed_world ''port: ['' = Inl ''yaml: did not find expected node content''"
    by (simp add: world_fields_malformed unmarshal_malformed)
  have g: "http_Get malformed_world (Global_Url malformed_world) = Inr (Inr sub_ac)"
    by (simp add: world_fields_malformed fetch_example)
  have d: "base64_DecodeString malformed_world sub_ac = Inr body_ac"
    by (simp add: world_fields_malformed decode_sub_ac)
  have c: "createDefaultClashConfig malformed_world [proxy_a] [''a'']
     = Fatal ''Error parsing template: yaml: did not find expected node content''"
    by (simp add: createDefaultClashConfig_def read_malformed u)
  have p: "processConvert malformed_world
     = Fatal ''Error parsing template: yaml: did not find expected node content''"
    by (simp add: processConvert_links [OF g d links_loop_malformed] c)
  have "processConfig malformed_world
     = Fatal ''Error parsing template: yaml: did not find expected node content''"
    by (simp add: processConfig_def p)
  with read_malformed u p show ?thesis by simp
qed

text \<open>
  C4. For every template that parses, the output has one group for each group of the
  template, in the same order. A group whose \<open>proxies\<close> field is the string
  "${proxies}" gets the generated names as its members, as passed to the merger; a
  group whose \<open>proxies\<close> field is a list of strings gets that list as it is (a
  "${proxies}" inside the list stays an ordinary member). The names the orchestrator
  passes are the names of the collected entries, and the entries stand in the order of
  the lines they came from.
\<close>

theorem placeholder_group_expansion:
  assumes "os_ReadFile W ''resources/out-template.yaml'' = Inr f"
    and "yaml_Unmarshal W f = Inr tmpl"
  shows "(\<exists>cfg. createDefaultClashConfig W proxies proxyNames = Return cfg
           \<and> length (ClashConfig.ProxyGroups cfg) = length (TemplateConfig.ProxyGroups tmpl)
           \<and> (\<forall>i < length (TemplateConfig.ProxyGroups tmpl).
                (index (TemplateConfig.ProxyGroups tmpl ! i) ''proxies'' = AString ''${proxies}'' \<longrightarrow>
                   ProxyGroup.Proxies (ClashConfig.ProxyGroups cfg ! i) = proxyNames)
                \<and> (\<forall>names. index (TemplateConfig.ProxyGroups tmpl ! i) ''proxies''
                              = ASlice (map AString names) \<longrightarrow>
                   ProxyGroup.Proxies (ClashConfig.ProxyGroups cfg ! i) = names)))
       \<and> (\<forall>nodeLinks. snd (links_loop W nodeLinks ([], []))
                         = map ClashProxy.Name (fst (links_loop W nodeLinks ([], []))))
       \<and> (\<forall>ls1 ls2. fst (links_loop W (ls1 @ ls2) ([], []))
                       = fst (links_loop W ls1 ([], [])) @ fst (links_loop W ls2 ([], [])))"
proof -
  from createDefault_parsed [OF assms, of proxies proxyNames]
  obtain cfg where c: "createDefaultClashConfig W proxies proxyNames = Return cfg"
    and g: "ClashConfig.ProxyGroups cfg = map (group_of proxyNames) (TemplateConfig.ProxyGroups tmpl)"
    by blast
  have "ProxyGroup.Proxies (ClashConfig.ProxyGroups cfg ! i) = proxyNames"
    if "i < length (TemplateConfig.ProxyGroups tmpl)"
      and "index (TemplateConfig.ProxyGroups tmpl ! i) ''proxies'' = AString ''${proxies}''" for i
    using that by (simp add: g group_of_placeholder)
  moreover have "ProxyGroup.Proxies (ClashConfig.ProxyGroups cfg ! i) = names"
    if "i < length (TemplateConfig.ProxyGroups tmpl)"
      and "index (TemplateConfig.ProxyGroups tmpl ! i) ''proxies'' = ASlice (map AString names)"
    for i names
  proof -
    have "ProxyGroup.Proxies (group_of proxyNames (TemplateConfig.ProxyGroups tmpl ! i))
            = [s. AString s \<leftarrow> map AString names]"
      using that(2) by (rule group_of_slice)
    then have "ProxyGroup.Proxies (group_of proxyNames (TemplateConfig.ProxyGroups tmpl ! i)) = names"
      by (simp only: strings_of_strings)
    with that(1) show ?thesis by (simp add: g)
  qed
  moreover have "length (ClashConfig.ProxyGroups cfg) = length (TemplateConfig.ProxyGroups tmpl)"
    by (simp add: g)
  ultimately have "\<exists>cfg. createDefaultClashConfig W proxies proxyNames = Return cfg
           \<and> length (ClashConfig.ProxyGroups cfg) = length (TemplateConfig.ProxyGroups tmpl)
           \<and> (\<forall>i < length (TemplateConfig.ProxyGroups tmpl).
                (index (TemplateConfig.ProxyGroups tmpl ! i) ''proxies'' = AString ''${proxies}'' \<longrightarrow>
                   ProxyGroup.Proxies (ClashConfig.ProxyGroups cfg ! i) = proxyNames)
                \<and> (\<forall>names. index (TemplateConfig.ProxyGroups tmpl ! i) ''proxies''
                              = ASlice (map AString names) \<longrightarrow>
                   ProxyGroup.Proxies (ClashConfig.ProxyGroups cfg ! i) = names))"
    using c by blast
  then show ?thesis
    using links_loop_names links_loop_fst_append by blast
qed

text \<open>
  At the example template: the group Auto is expanded, the group Static is copied.
\<close>

theorem placeholder_group_expansion_example:
  "links_loop example_world [link_a, link_c, link_b] ([], []) = ([proxy_a, proxy_b], [''a'', ''b''])
   \<and> index group_auto ''proxies'' = AString ''${proxies}''
   \<and> index group_static ''proxies'' = ASlice (map AString [''DIRECT'', ''${proxies}''])
   \<and> (\<exists>cfg. createDefaultClashConfig template_world [proxy_a, proxy_b] [''a'', ''b''] = Return cfg
         \<and> length (ClashConfig.ProxyGroups cfg) = 4
         \<and> ProxyGroup.Proxies (ClashConfig.ProxyGroups cfg ! 0) = [''a'', ''b'']
         \<and> ProxyGroup.Proxies (ClashConfig.ProxyGroups cfg ! 1) = [''DIRECT'', ''${proxies}''])"
proof -
  note T = placeholder_group_expansion [OF read_template unmarshal_template,
      of "[proxy_a, proxy_b]" "[''a'', ''b'']"]
  then obtain cfg where c: "createDefaultClashConfig template_world [proxy_a, proxy_b] [''a'', ''b''] = Return cfg"
    and l: "length (ClashConfig.ProxyGroups cfg) = length (TemplateConfig.ProxyGroups example_template)"
    and g: "\<forall>i < length (TemplateConfig.ProxyGroups example_template).
                (index (TemplateConfig.ProxyGroups example_template ! i) ''proxies'' = AString ''${proxies}'' \<longrightarrow>
                   ProxyGroup.Proxies (ClashConfig.ProxyGroups cfg ! i) = [''a'', ''b''])
                \<and> (\<forall>names. index (TemplateConfig.ProxyGroups example_template ! i) ''proxies''
                              = ASlice (map AString names) \<longrightarrow>
                   ProxyGroup.Proxies (ClashConfig.ProxyGroups cfg ! i) = names)"
    by blast
  have 0: "ProxyGroup.Proxies (ClashConfig.ProxyGroups cfg ! 0) = [''a'', ''b'']"
    using g [rule_format, of 0] index_group_auto by (simp add: example_groups)
  have "\<forall>names. index (TemplateConfig.ProxyGroups example_template ! 1) ''proxies''
                              = ASlice (map AString names) \<longrightarrow>
                   ProxyGroup.Proxies (ClashConfig.ProxyGroups cfg ! 1) = names"
    using g [rule_format, of 1] by (simp add: example_groups(1))
  then have 1: "ProxyGroup.Proxies (ClashConfig.ProxyGroups cfg ! 1) = [''DIRECT'', ''${proxies}'']"
    using index_group_static by (simp only: example_groups(3))
  have 4: "length (ClashConfig.ProxyGroups cfg) = 4"
    using l by (simp add: example_groups)
  have "\<exists>cfg. createDefaultClashConfig template_world [proxy_a, proxy_b] [''a'', ''b''] = Return cfg
         \<and> length (ClashConfig.ProxyGroups cfg) = 4
         \<and> ProxyGroup.Proxies (ClashConfig.ProxyGroups cfg ! 0) = [''a'', ''b'']
         \<and> ProxyGroup.Proxies (ClashConfig.ProxyGroups cfg ! 1) = [''DIRECT'', ''${proxies}'']"
    using c 4 0 1 by (intro exI [of _ cfg] conjI)
  then show ?thesis
    by (intro conjI) (rule links_loop_acb index_group_auto index_group_static | assumption)+
qed

text \<open>
  C5. When the template file cannot be read, the document returned has port 7890,
  socks-port 7891, allow-lan true, mode "Rule", log-level "info", external-controller
  "127.0.0.1:9090", the generated proxies, exactly one group, named "PROXY", of type
  "select", with the members "DIRECT", "REJECT" and then all generated names in order,
  and exactly one rule, "MATCH,DIRECT".
\<close>

theorem fallback_default_document:
  assumes "os_ReadFile W ''resources/out-template.yaml'' = Inl err"
  shows "\<exists>cfg grp. createDefaultClashConfig W proxies proxyNames = Return cfg
           \<and> ClashConfig.Port cfg = 7890
           \<and> ClashConfig.SocksPort cfg = 7891
           \<and> ClashConfig.AllowLan cfg = True
           \<and> ClashConfig.Mode cfg = ''Rule''
           \<and> ClashConfig.LogLevel cfg = ''info''
           \<and> ClashConfig.ExternalCtrl cfg = ''127.0.0.1:9090''
           \<and> ClashConfig.Proxies cfg = proxies
           \<and> ClashConfig.ProxyGroups cfg = [grp]
           \<and> ProxyGroup.Name grp = ''PROXY''
           \<and> ProxyGroup.Type grp = ''select''
           \<and> ProxyGroup.Proxies grp = ''DIRECT'' # ''REJECT'' # proxyNames
           \<and> ClashConfig.Rules cfg = [''MATCH,DIRECT'']"
  using assms by (simp add: createDefaultClashConfig_def)

text \<open>The fallback at the example: no template file, one generated proxy.\<close>

theorem fallback_default_document_example:
  "\<exists>cfg grp. createDefaultClashConfig example_world [proxy_a] [''a''] = Return cfg
           \<and> ClashConfig.Port cfg = 7890
           \<and> ClashConfig.SocksPort cfg = 7891
           \<and> ClashConfig.AllowLan cfg = True
           \<and> ClashConfig.Mode cfg = ''Rule''
           \<and> ClashConfig.LogLevel cfg = ''info''
           \<and> ClashConfig.ExternalCtrl cfg = ''127.0.0.1:9090''
           \<and> ClashConfig.Proxies cfg = [proxy_a]
           \<and> ClashConfig.ProxyGroups cfg = [grp]
           \<and> ProxyGroup.Name grp = ''PROXY''
           \<and> ProxyGroup.Type grp = ''select''
           \<and> ProxyGroup.Proxies grp = [''DIRECT'', ''REJECT'', ''a'']
           \<and> ClashConfig.Rules cfg = [''MATCH,DIRECT'']"
proof -
  have "os_ReadFile example_world ''resources/out-template.yaml'' = Inl ''no such file or directory''"
    by (simp add: example_world_def)
  then show ?thesis by (rule fallback_default_document)
qed

text \<open>
  C6. For every node the mapper accepts, the entry's \<open>WSOpts\<close> is set if and only if the
  node's network is "ws"; it then holds the node's path under "path" and, under
  "headers", a map with the node's host under "Host". The key "ws-opts" is among the
  serialized keys of the entry exactly in that case: for any other network the field is
  the nil map, which \<open>omitempty\<close> leaves out.
\<close>

theorem ws_opts_iff_websocket:
  assumes "convertVmessToClashProxy node = Inr proxy"
  shows "(WSOpts proxy \<noteq> None \<longleftrightarrow> Net node = ''ws'')
       \<and> (Net node = ''ws'' \<longrightarrow>
            WSOpts proxy = Some [(''path'', AString (VmessNode.Path node)),
                                 (''headers'', AStringMap [(''Host'', Host node)])])
       \<and> (''ws-opts'' \<in> set (yaml_keys proxy) \<longleftrightarrow> Net node = ''ws'')"
proof -
  from assms obtain port where port: "Atoi (VmessNode.Port node) = Some port"
    by (cases "Atoi (VmessNode.Port node)") (simp_all add: convertVmessToClashProxy_def)
  show ?thesis
  proof (cases "Net node = ''ws''")
    case True
    from assms have w: "WSOpts proxy = Some [(''path'', AString (VmessNode.Path node)),
                                 (''headers'', AStringMap [(''Host'', Host node)])]"
      by (auto simp add: convertVmessToClashProxy_def port True)
    have "''ws-opts'' \<in> set (yaml_keys proxy)"
      by (simp add: yaml_keys_def w)
    with True w show ?thesis by simp
  next
    case False
    from assms have w: "WSOpts proxy = None"
      by (auto simp add: convertVmessToClashProxy_def port False)
    have "''ws-opts'' \<notin> set (yaml_keys proxy)"
      by (simp add: yaml_keys_def w)
    with False w show ?thesis by simp
  qed
qed

text \<open>
  The two cases at the examples: a "ws" node and a "tcp" node.
\<close>

theorem ws_opts_iff_websocket_example:
  "convertVmessToClashProxy node_a = Inr proxy_a
   \<and> WSOpts proxy_a = Some [(''path'', AString ''/p''), (''headers'', AStringMap [(''Host'', ''h1'')])]
   \<and> ''ws-opts'' \<in> set (yaml_keys proxy_a)
   \<and> convertVmessToClashProxy node_b = Inr proxy_b
   \<and> WSOpts proxy_b = None
   \<and> ''ws-opts'' \<notin> set (yaml_keys proxy_b)"
proof -
  have a: "Net node_a = ''ws''" and b: "Net node_b \<noteq> ''ws''"
    by (simp_all add: node_a_def node_b_def)
  have pa: "VmessNode.Path node_a = ''/p''" and ha: "Host node_a = ''h1''"
    by (simp_all add: node_a_def)
  note A = ws_opts_iff_websocket [OF convert_a] and B = ws_opts_iff_websocket [OF convert_b]
  have 1: "WSOpts proxy_a = Some [(''path'', AString ''/p''), (''headers'', AStringMap [(''Host'', ''h1'')])]"
    using A a pa ha by simp
  have 2: "''ws-opts'' \<in> set (yaml_keys proxy_a)"
    using A a by simp
  have 3: "WSOpts proxy_b = None"
    using B b by simp
  have 4: "''ws-opts'' \<notin> set (yaml_keys proxy_b)"
    using B b by simp
  show ?thesis
    by (intro conjI) (rule convert_a 1 2 convert_b 3 4)+
qed




text \<open>
  C8. For every trimmed line with the prefix "vmess://", the string handed to the base64
  decoder is the payload followed by just enough "=" to reach the next multiple of 4:
  its length is a multiple of 4, less than 4 more than the payload's; a payload whose
  length is no multiple of 4 gets 4 - (length mod 4) characters "=", and one whose length
  is a multiple of 4 is decoded unchanged.
\<close>

theorem padding_to_multiple_of_four:
  assumes "HasPrefix link ''vmess://''"
    and "payload = TrimPrefix link ''vmess://''"
  shows "length (pad_base64 payload) mod 4 = 0
       \<and> length payload \<le> length (pad_base64 payload)
       \<and> length (pad_base64 payload) < length payload + 4
       \<and> (length payload mod 4 \<noteq> 0 \<longrightarrow>
            pad_base64 payload = payload @ replicate (4 - length payload mod 4) (CHR ''=''))
       \<and> (length payload mod 4 = 0 \<longrightarrow> pad_base64 payload = payload)
       \<and> (\<forall>W link0 acc. strings_TrimSpace W link0 = link \<longrightarrow>
            loop_body W link0 acc = decode_node W (pad_base64 payload) acc)"
proof -
  have "length (pad_base64 payload) mod 4 = 0"
    unfolding pad_base64_eq by (simp add: mod_simps) presburger
  moreover have "length payload \<le> length (pad_base64 payload)"
    and "length (pad_base64 payload) < length payload + 4"
    unfolding pad_base64_eq by simp_all
  moreover have "length payload mod 4 \<noteq> 0 \<longrightarrow>
            pad_base64 payload = payload @ replicate (4 - length payload mod 4) (CHR ''='')"
    by (simp add: pad_base64_def pad_loop_eq)
  moreover have "length payload mod 4 = 0 \<longrightarrow> pad_base64 payload = payload"
    by (simp add: pad_base64_def)
  moreover have "\<forall>W link0 acc. strings_TrimSpace W link0 = link \<longrightarrow>
            loop_body W link0 acc = decode_node W (pad_base64 payload) acc"
    using assms by (simp add: loop_body_def)
  ultimately show ?thesis by blast
qed

text \<open>
  At the example: a payload of 78 characters gets two "=".
\<close>

theorem padding_to_multiple_of_four_example:
  "HasPrefix link_a ''vmess://''
   \<and> TrimPrefix link_a ''vmess://'' = payload_a
   \<and> length payload_a = 78
   \<and> pad_base64 payload_a = payload_a @ ''==''
   \<and> length (pad_base64 payload_a) mod 4 = 0
   \<and> loop_body example_world ('' '' @ link_a @ [CHR 0x0D]) ([], []) =
       decode_node example_world (pad_base64 payload_a) ([], [])"
proof -
  note P = padding_to_multiple_of_four [OF prefix_a trim_prefix_a [symmetric]]
  have 1: "pad_base64 payload_a = payload_a @ replicate (4 - length payload_a mod 4) (CHR ''='')"
    using P by (simp add: length_payload_a)
  have 2: "pad_base64 payload_a = payload_a @ ''==''"
    using 1 by (simp add: length_payload_a numeral_2_eq_2)
  have 3: "length (pad_base64 payload_a) mod 4 = 0"
    using P by simp
  have "strings_TrimSpace example_world ('' '' @ link_a @ [CHR 0x0D]) = link_a \<longrightarrow>
          loop_body example_world ('' '' @ link_a @ [CHR 0x0D]) ([], []) =
          decode_node example_world (pad_base64 payload_a) ([], [])"
    using P by (elim conjE allE)
  then have 4: "loop_body example_world ('' '' @ link_a @ [CHR 0x0D]) ([], []) =
          decode_node example_world (pad_base64 payload_a) ([], [])"
    using trim_a_spaced by (rule mp)
  show ?thesis
    by (intro conjI) (rule prefix_a trim_prefix_a length_payload_a 2 3 4)+
qed

text \<open>
  C9. A link that yields an entry yields the same entry and name whatever the loop has
  collected before: the step depends on the line alone, so running it twice on the
  same link appends two identical entries.
\<close>

theorem decode_map_repeatable:
  assumes "loop_body W link ([], []) = ([proxy], [name])"
  shows "loop_body W link (ps, ns) = (ps @ [proxy], ns @ [name])
       \<and> loop_body W link (loop_body W link (ps, ns)) = (ps @ [proxy, proxy], ns @ [name, name])
       \<and> links_loop W [link, link] ([], []) = ([proxy, proxy], [name, name])"
proof -
  have 1: "loop_body W link (qs, ms) = (qs @ [proxy], ms @ [name])" for qs ms
    using loop_body_acc [of W link qs ms] assms by simp
  show ?thesis using 1 [of ps ns] 1 [of "ps @ [proxy]" "ns @ [name]"] 1 [of "[proxy]" "[name]"] assms
    by simp
qed

text \<open>
  At the example link, after another entry and twice in a row.
\<close>

theorem decode_map_repeatable_example:
  "loop_body example_world link_a ([], []) = ([proxy_a], [''a''])
   \<and> loop_body example_world link_a ([proxy_b], [''b'']) = ([proxy_b, proxy_a], [''b'', ''a''])
   \<and> links_loop example_world [link_a, link_a] ([], []) = ([proxy_a, proxy_a], [''a'', ''a''])"
proof -
  note R = decode_map_repeatable [OF loop_body_a, of "[proxy_b]" "[''b'']"]
  have 1: "loop_body example_world link_a ([proxy_b], [''b'']) = ([proxy_b, proxy_a], [''b'', ''a''])"
    using R by simp
  have 2: "links_loop example_world [link_a, link_a] ([], []) = ([proxy_a, proxy_a], [''a'', ''a''])"
    using R by (elim conjE)
  show ?thesis
    by (intro conjI) (rule loop_body_a 1 2)+
qed

text \<open>
  C10. For every template that parses, the merger returns a document, with one group
  for each group of the template, whatever the dynamic types in a group: a \<open>name\<close> or
  \<open>type\<close> that is no string (or is missing) gives the empty string; a \<open>proxies\<close> field
  that is neither the string "${proxies}" nor a list gives no members; and of a list
  the strings are kept in order and every other item is dropped.
\<close>

theorem ill_typed_group_fields:
  assumes "os_ReadFile W ''resources/out-template.yaml'' = Inr f"
    and "yaml_Unmarshal W f = Inr tmpl"
  shows "\<exists>cfg. createDefaultClashConfig W proxies proxyNames = Return cfg
           \<and> length (ClashConfig.ProxyGroups cfg) = length (TemplateConfig.ProxyGroups tmpl)
           \<and> (\<forall>i < length (TemplateConfig.ProxyGroups tmpl).
                ((\<nexists>s. index (TemplateConfig.ProxyGroups tmpl ! i) ''name'' = AString s) \<longrightarrow>
                   ProxyGroup.Name (ClashConfig.ProxyGroups cfg ! i) = [])
                \<and> ((\<nexists>s. index (TemplateConfig.ProxyGroups tmpl ! i) ''type'' = AString s) \<longrightarrow>
                   ProxyGroup.Type (ClashConfig.ProxyGroups cfg ! i) = [])
                \<and> (index (TemplateConfig.ProxyGroups tmpl ! i) ''proxies'' \<noteq> AString ''${proxies}''
                     \<and> (\<nexists>xs. index (TemplateConfig.ProxyGroups tmpl ! i) ''proxies'' = ASlice xs) \<longrightarrow>
                   ProxyGroup.Proxies (ClashConfig.ProxyGroups cfg ! i) = [])
                \<and> (\<forall>xs. index (TemplateConfig.ProxyGroups tmpl ! i) ''proxies'' = ASlice xs \<longrightarrow>
                   ProxyGroup.Proxies (ClashConfig.ProxyGroups cfg ! i) = [s. AString s \<leftarrow> xs]))"
proof -
  from createDefault_parsed [OF assms, of proxies proxyNames]
  obtain cfg where c: "createDefaultClashConfig W proxies proxyNames = Return cfg"
    and g: "ClashConfig.ProxyGroups cfg = map (group_of proxyNames) (TemplateConfig.ProxyGroups tmpl)"
    by blast
  have n: "ClashConfig.ProxyGroups cfg ! i = group_of proxyNames (TemplateConfig.ProxyGroups tmpl ! i)"
    if "i < length (TemplateConfig.ProxyGroups tmpl)" for i
    using that by (simp add: g)
  have "length (ClashConfig.ProxyGroups cfg) = length (TemplateConfig.ProxyGroups tmpl)"
    by (simp add: g)
  moreover have "\<forall>i < length (TemplateConfig.ProxyGroups tmpl).
                ((\<nexists>s. index (TemplateConfig.ProxyGroups tmpl ! i) ''name'' = AString s) \<longrightarrow>
                   ProxyGroup.Name (ClashConfig.ProxyGroups cfg ! i) = [])
                \<and> ((\<nexists>s. index (TemplateConfig.ProxyGroups tmpl ! i) ''type'' = AString s) \<longrightarrow>
                   ProxyGroup.Type (ClashConfig.ProxyGroups cfg ! i) = [])
                \<and> (index (TemplateConfig.ProxyGroups tmpl ! i) ''proxies'' \<noteq> AString ''${proxies}''
                     \<and> (\<nexists>xs. index (TemplateConfig.ProxyGroups tmpl ! i) ''proxies'' = ASlice xs) \<longrightarrow>
                   ProxyGroup.Proxies (ClashConfig.ProxyGroups cfg ! i) = [])
                \<and> (\<forall>xs. index (TemplateConfig.ProxyGroups tmpl ! i) ''proxies'' = ASlice xs \<longrightarrow>
                   ProxyGroup.Proxies (ClashConfig.ProxyGroups cfg ! i) = [s. AString s \<leftarrow> xs])"
  proof (intro allI impI)
    fix i
    assume i: "i < length (TemplateConfig.ProxyGroups tmpl)"
    define t where "t = TemplateConfig.ProxyGroups tmpl ! i"
    have e: "ClashConfig.ProxyGroups cfg ! i = group_of proxyNames t"
      using n [OF i] by (simp add: t_def)
    have 1: "(\<nexists>s. index t ''name'' = AString s) \<longrightarrow> ProxyGroup.Name (group_of proxyNames t) = []"
      using group_of_name [of t proxyNames] by (rule impI)
    have 2: "(\<nexists>s. index t ''type'' = AString s) \<longrightarrow> ProxyGroup.Type (group_of proxyNames t) = []"
      using group_of_type [of t proxyNames] by (rule impI)
    have 3: "index t ''proxies'' \<noteq> AString ''${proxies}'' \<and> (\<nexists>xs. index t ''proxies'' = ASlice xs)
               \<longrightarrow> ProxyGroup.Proxies (group_of proxyNames t) = []"
      using group_of_no_list [of t proxyNames] by (intro impI) (elim conjE)
    have 4: "\<forall>xs. index t ''proxies'' = ASlice xs \<longrightarrow>
               ProxyGroup.Proxies (group_of proxyNames t) = [s. AString s \<leftarrow> xs]"
      using group_of_slice [of t _ proxyNames] by (intro allI impI)
    show "((\<nexists>s. index (TemplateConfig.ProxyGroups tmpl ! i) ''name'' = AString s) \<longrightarrow>
                   ProxyGroup.Name (ClashConfig.ProxyGroups cfg ! i) = [])
                \<and> ((\<nexists>s. index (TemplateConfig.ProxyGroups tmpl ! i) ''type'' = AString s) \<longrightarrow>
                   ProxyGroup.Type (ClashConfig.ProxyGroups cfg ! i) = [])
                \<and> (index (TemplateConfig.ProxyGroups tmpl ! i) ''proxies'' \<noteq> AString ''${proxies}''
                     \<and> (\<nexists>xs. index (TemplateConfig.ProxyGroups tmpl ! i) ''proxies'' = ASlice xs) \<longrightarrow>
                   ProxyGroup.Proxies (ClashConfig.ProxyGroups cfg ! i) = [])
                \<and> (\<forall>xs. index (TemplateConfig.ProxyGroups tmpl ! i) ''proxies'' = ASlice xs \<longrightarrow>
                   ProxyGroup.Proxies (ClashConfig.ProxyGroups cfg ! i) = [s. AString s \<leftarrow> xs])"
      unfolding e t_def [symmetric]
      by (intro conjI) (rule 1 2 3 4)+
  qed
  ultimately show ?thesis using c by blast
qed

text \<open>
  At the example template: the groups with an integer name, a missing and a boolean
  type, a list with an integer in it, and a string that is not the placeholder.
\<close>

theorem ill_typed_group_fields_example:
  "index group_untyped ''name'' = AInt 7
   \<and> index group_untyped ''type'' = ANil
   \<and> index group_untyped ''proxies'' = ASlice [AString ''DIRECT'', AInt 1, AString ''REJECT'']
   \<and> index group_odd ''type'' = ABool True
   \<and> index group_odd ''proxies'' = AString ''DIRECT''
   \<and> (\<exists>cfg. createDefaultClashConfig template_world [proxy_a] [''a''] = Return cfg
         \<and> length (ClashConfig.ProxyGroups cfg) = 4
         \<and> ProxyGroup.Name (ClashConfig.ProxyGroups cfg ! 2) = []
         \<and> ProxyGroup.Type (ClashConfig.ProxyGroups cfg ! 2) = []
         \<and> ProxyGroup.Proxies (ClashConfig.ProxyGroups cfg ! 2) = [''DIRECT'', ''REJECT'']
         \<and> ProxyGroup.Type (ClashConfig.ProxyGroups cfg ! 3) = []
         \<and> ProxyGroup.Proxies (ClashConfig.ProxyGroups cfg ! 3) = [])"
proof -
  note T = ill_typed_group_fields [OF read_template unmarshal_template, of "[proxy_a]" "[''a'']"]
  then obtain cfg where c: "createDefaultClashConfig template_world [proxy_a] [''a''] = Return cfg"
    and l: "length (ClashConfig.ProxyGroups cfg) = length (TemplateConfig.ProxyGroups example_template)"
    and g: "\<forall>i < length (TemplateConfig.ProxyGroups example_template).
                ((\<nexists>s. index (TemplateConfig.ProxyGroups example_template ! i) ''name'' = AString s) \<longrightarrow>
                   ProxyGroup.Name (ClashConfig.ProxyGroups cfg ! i) = [])
                \<and> ((\<nexists>s. index (TemplateConfig.ProxyGroups example_template ! i) ''type'' = AString s) \<longrightarrow>
                   ProxyGroup.Type (ClashConfig.ProxyGroups cfg ! i) = [])
                \<and> (index (TemplateConfig.ProxyGroups example_template ! i) ''proxies'' \<noteq> AString ''${proxies}''
                     \<and> (\<nexists>xs. index (TemplateConfig.ProxyGroups example_template ! i) ''proxies'' = ASlice xs) \<longrightarrow>
                   ProxyGroup.Proxies (ClashConfig.ProxyGroups cfg ! i) = [])
                \<and> (\<forall>xs. index (TemplateConfig.ProxyGroups example_template ! i) ''proxies'' = ASlice xs \<longrightarrow>
                   ProxyGroup.Proxies (ClashConfig.ProxyGroups cfg ! i) = [s. AString s \<leftarrow> xs])"
    by blast
  have g2: "((\<nexists>s. index group_untyped ''name'' = AString s) \<longrightarrow>
                   ProxyGroup.Name (ClashConfig.ProxyGroups cfg ! 2) = [])
                \<and> ((\<nexists>s. index group_untyped ''type'' = AString s) \<longrightarrow>
                   ProxyGroup.Type (ClashConfig.ProxyGroups cfg ! 2) = [])
                \<and> (index group_untyped ''proxies'' \<noteq> AString ''${proxies}''
                     \<and> (\<nexists>xs. index group_untyped ''proxies'' = ASlice xs) \<longrightarrow>
                   ProxyGroup.Proxies (ClashConfig.ProxyGroups cfg ! 2) = [])
                \<and> (\<forall>xs. index group_untyped ''proxies'' = ASlice xs \<longrightarrow>
                   ProxyGroup.Proxies (ClashConfig.ProxyGroups cfg ! 2) = [s. AString s \<leftarrow> xs])"
    using g [rule_format, of 2] by (simp only: example_groups) simp
  have g3: "((\<nexists>s. index group_odd ''name'' = AString s) \<longrightarrow>
                   ProxyGroup.Name (ClashConfig.ProxyGroups cfg ! 3) = [])
                \<and> ((\<nexists>s. index group_odd ''type'' = AString s) \<longrightarrow>
                   ProxyGroup.Type (ClashConfig.ProxyGroups cfg ! 3) = [])
                \<and> (index group_odd ''proxies'' \<noteq> AString ''${proxies}''
                     \<and> (\<nexists>xs. index group_odd ''proxies'' = ASlice xs) \<longrightarrow>
                   ProxyGroup.Proxies (ClashConfig.ProxyGroups cfg ! 3) = [])
                \<and> (\<forall>xs. index group_odd ''proxies'' = ASlice xs \<longrightarrow>
                   ProxyGroup.Proxies (ClashConfig.ProxyGroups cfg ! 3) = [s. AString s \<leftarrow> xs])"
    using g [rule_format, of 3] by (simp only: example_groups) simp
  have n2: "ProxyGroup.Name (ClashConfig.ProxyGroups cfg ! 2) = []"
    and t2: "ProxyGroup.Type (ClashConfig.ProxyGroups cfg ! 2) = []"
    and p2: "ProxyGroup.Proxies (ClashConfig.ProxyGroups cfg ! 2) = [''DIRECT'', ''REJECT'']"
    using g2 by (simp_all add: index_group_untyped)
  have t3: "ProxyGroup.Type (ClashConfig.ProxyGroups cfg ! 3) = []"
    and p3: "ProxyGroup.Proxies (ClashConfig.ProxyGroups cfg ! 3) = []"
    using g3 by (simp_all add: index_group_odd)
  have 4: "length (ClashConfig.ProxyGroups cfg) = 4"
    using l by (simp add: example_groups)
  have "\<exists>cfg. createDefaultClashConfig template_world [proxy_a] [''a''] = Return cfg
         \<and> length (ClashConfig.ProxyGroups cfg) = 4
         \<and> ProxyGroup.Name (ClashConfig.ProxyGroups cfg ! 2) = []
         \<and> ProxyGroup.Type (ClashConfig.ProxyGroups cfg ! 2) = []
         \<and> ProxyGroup.Proxies (ClashConfig.ProxyGroups cfg ! 2) = [''DIRECT'', ''REJECT'']
         \<and> ProxyGroup.Type (ClashConfig.ProxyGroups cfg ! 3) = []
         \<and> ProxyGroup.Proxies (ClashConfig.ProxyGroups cfg ! 3) = []"
    using c 4 n2 t2 p2 t3 p3 by (intro exI [of _ cfg] conjI)
  then show ?thesis
    by (intro conjI) (rule index_group_untyped index_group_odd | assumption)+
qed

end
